theory Spec2Isabelle
  imports Main
begin

section \<open>zf\_log: the header zf\_log.h as HOL functions\<close>

text \<open>
  The repository's only source file is the header \<^verbatim>\<open>zf_log/zf_log.h\<close>. It consists of
  preprocessor macros: the level constants, the selection of the current (compile-time) log
  level, the two filters \<^verbatim>\<open>ZF_LOG_ALLOW\<close> and \<^verbatim>\<open>ZF_LOG_OUTPUT\<close>, and the six logging macros
  \<^verbatim>\<open>ZF_LOGV\<close> .. \<^verbatim>\<open>ZF_LOGF\<close>. The functions it declares (\<^verbatim>\<open>_zf_log_write\<close>,
  \<^verbatim>\<open>_zf_log_write_d\<close> and the three setters) are defined in \<^verbatim>\<open>zf_log.c\<close>.

  An identifier of the header that starts with an underscore is written here with the prefix
  \<open>u_\<close>: \<^verbatim>\<open>_ZF_LOG_LEVEL\<close> is \<open>u_ZF_LOG_LEVEL\<close>, \<^verbatim>\<open>_zf_log_output_lvl\<close> is
  \<open>u_zf_log_output_lvl\<close>.
\<close>

subsection \<open>Level constants (zf\_log.h, lines 34--40)\<close>

text \<open>
  Levels are C \<^verbatim>\<open>int\<close>s. The header only ever compares them (\<^verbatim>\<open>>=\<close>), so no arithmetic can
  overflow and they are modelled as HOL integers.
\<close>

definition ZF_LOG_VERBOSE :: int where "ZF_LOG_VERBOSE = 1"
definition ZF_LOG_DEBUG :: int where "ZF_LOG_DEBUG = 2"
definition ZF_LOG_INFO :: int where "ZF_LOG_INFO = 3"
definition ZF_LOG_WARN :: int where "ZF_LOG_WARN = 4"
definition ZF_LOG_ERROR :: int where "ZF_LOG_ERROR = 5"
definition ZF_LOG_FATAL :: int where "ZF_LOG_FATAL = 6"
definition ZF_LOG_NONE :: int where "ZF_LOG_NONE = 0xFFFF"

subsection \<open>The configuration of a translation unit\<close>

text \<open>
  C leaves open the order in which the arguments of a call are evaluated; the compiler
  chooses. The model has the two orders compilers use: all arguments from the left, or all
  from the right (as gcc does on x86-64).
\<close>

datatype arg_order = Left_to_right | Right_to_left

text \<open>
  What the including \<^verbatim>\<open>.c\<close> file and the build script define before the header is read;
  \<open>None\<close> is "the macro is not defined". \<open>ARG_ORDER\<close> is not a macro: it is the compiler's
  order of evaluation.
\<close>

record build =
  ZF_LOG_LEVEL :: "int option"
  ZF_LOG_DEF_LEVEL :: "int option"
  NDEBUG :: bool
  ZF_LOG_TAG :: "string option"
  ZF_LOG_DEF_TAG :: "string option"
  ARG_ORDER :: arg_order

text \<open>Lines 70--80: \<^verbatim>\<open>#if defined(ZF_LOG_LEVEL) ... #elif defined(ZF_LOG_DEF_LEVEL) ... #else\<close>.\<close>

definition u_ZF_LOG_LEVEL :: "build \<Rightarrow> int" where
  "u_ZF_LOG_LEVEL b =
     (case ZF_LOG_LEVEL b of
        Some l \<Rightarrow> l
      | None \<Rightarrow>
          (case ZF_LOG_DEF_LEVEL b of
             Some d \<Rightarrow> d
           | None \<Rightarrow> (if NDEBUG b then ZF_LOG_INFO else ZF_LOG_DEBUG)))"

text \<open>Lines 97--103: the tag of the unit; \<open>None\<close> is the null pointer \<^verbatim>\<open>0\<close>.\<close>

definition u_ZF_LOG_TAG :: "build \<Rightarrow> string option" where
  "u_ZF_LOG_TAG b =
     (case ZF_LOG_TAG b of
        Some t \<Rightarrow> Some t
      | None \<Rightarrow>
          (case ZF_LOG_DEF_TAG b of
             Some t \<Rightarrow> Some t
           | None \<Rightarrow> None))"

subsection \<open>The process state\<close>

text \<open>
  \<open>u_zf_log_output_lvl\<close> is the \<^verbatim>\<open>extern int _zf_log_output_lvl\<close> of line 148, the only
  variable the macros read. \<open>mem\<close> is the program's own memory, on which the argument
  expressions of a log statement work. \<open>lib\<close> is whatever else the library keeps and does
  behind the functions the header declares; the macros neither read nor write it.
\<close>

record ('u, 'l) proc =
  u_zf_log_output_lvl :: int
  mem :: 'u
  lib :: 'l

subsection \<open>The filters (lines 172 and 190--191)\<close>

definition ZF_LOG_ALLOW :: "build \<Rightarrow> int \<Rightarrow> bool" where
  "ZF_LOG_ALLOW b lvl = (lvl \<ge> u_ZF_LOG_LEVEL b)"

definition ZF_LOG_OUTPUT :: "build \<Rightarrow> ('u, 'l) proc \<Rightarrow> int \<Rightarrow> bool" where
  "ZF_LOG_OUTPUT b st lvl = (ZF_LOG_ALLOW b lvl \<and> lvl \<ge> u_zf_log_output_lvl st)"

text \<open>Lines 173--178 and 192--197: the filters at the six levels.\<close>

definition ZF_LOG_ALLOW_VERBOSE :: "build \<Rightarrow> bool" where
  "ZF_LOG_ALLOW_VERBOSE b = ZF_LOG_ALLOW b ZF_LOG_VERBOSE"

definition ZF_LOG_ALLOW_DEBUG :: "build \<Rightarrow> bool" where
  "ZF_LOG_ALLOW_DEBUG b = ZF_LOG_ALLOW b ZF_LOG_DEBUG"

definition ZF_LOG_ALLOW_INFO :: "build \<Rightarrow> bool" where
  "ZF_LOG_ALLOW_INFO b = ZF_LOG_ALLOW b ZF_LOG_INFO"

definition ZF_LOG_ALLOW_WARN :: "build \<Rightarrow> bool" where
  "ZF_LOG_ALLOW_WARN b = ZF_LOG_ALLOW b ZF_LOG_WARN"

definition ZF_LOG_ALLOW_ERROR :: "build \<Rightarrow> bool" where
  "ZF_LOG_ALLOW_ERROR b = ZF_LOG_ALLOW b ZF_LOG_ERROR"

definition ZF_LOG_ALLOW_FATAL :: "build \<Rightarrow> bool" where
  "ZF_LOG_ALLOW_FATAL b = ZF_LOG_ALLOW b ZF_LOG_FATAL"

definition ZF_LOG_OUTPUT_VERBOSE :: "build \<Rightarrow> ('u, 'l) proc \<Rightarrow> bool" where
  "ZF_LOG_OUTPUT_VERBOSE b st = ZF_LOG_OUTPUT b st ZF_LOG_VERBOSE"

definition ZF_LOG_OUTPUT_DEBUG :: "build \<Rightarrow> ('u, 'l) proc \<Rightarrow> bool" where
  "ZF_LOG_OUTPUT_DEBUG b st = ZF_LOG_OUTPUT b st ZF_LOG_DEBUG"

definition ZF_LOG_OUTPUT_INFO :: "build \<Rightarrow> ('u, 'l) proc \<Rightarrow> bool" where
  "ZF_LOG_OUTPUT_INFO b st = ZF_LOG_OUTPUT b st ZF_LOG_INFO"

definition ZF_LOG_OUTPUT_WARN :: "build \<Rightarrow> ('u, 'l) proc \<Rightarrow> bool" where
  "ZF_LOG_OUTPUT_WARN b st = ZF_LOG_OUTPUT b st ZF_LOG_WARN"

definition ZF_LOG_OUTPUT_ERROR :: "build \<Rightarrow> ('u, 'l) proc \<Rightarrow> bool" where
  "ZF_LOG_OUTPUT_ERROR b st = ZF_LOG_OUTPUT b st ZF_LOG_ERROR"

definition ZF_LOG_OUTPUT_FATAL :: "build \<Rightarrow> ('u, 'l) proc \<Rightarrow> bool" where
  "ZF_LOG_OUTPUT_FATAL b st = ZF_LOG_OUTPUT b st ZF_LOG_FATAL"

subsection \<open>Arguments of a log statement\<close>

text \<open>
  \<^verbatim>\<open>__VA_ARGS__\<close> of a logging macro is the format string followed by the values to format.
  Each is a C expression, which may have side effects: an expression is a function from the
  program's memory to its value and the memory it leaves. The values come back in the order
  of the parameters, whatever the order of evaluation is. An argument works on the program's
  memory only: an argument that itself changes the output log level or calls into the
  library is not modelled.
\<close>

type_synonym ('u, 'a) expr = "'u \<Rightarrow> 'a \<times> 'u"

text \<open>From the left: the first expression works on the memory of the call.\<close>

fun eval_args :: "('u, 'v) expr list \<Rightarrow> 'u \<Rightarrow> 'v list \<times> 'u" where
  "eval_args [] m = ([], m)"
| "eval_args (e # es) m =
     (case e m of (v, m') \<Rightarrow> (case eval_args es m' of (vs, m'') \<Rightarrow> (v # vs, m'')))"

text \<open>From the right: the last expression works on the memory of the call.\<close>

fun eval_args_rtl :: "('u, 'v) expr list \<Rightarrow> 'u \<Rightarrow> 'v list \<times> 'u" where
  "eval_args_rtl [] m = ([], m)"
| "eval_args_rtl (e # es) m =
     (case eval_args_rtl es m of (vs, m') \<Rightarrow> (case e m' of (v, m'') \<Rightarrow> (v # vs, m'')))"

text \<open>
  The format string stands before the other arguments: from the left it is evaluated
  first, from the right last.
\<close>

definition eval_va_args ::
  "arg_order \<Rightarrow> ('u, string) expr \<Rightarrow> ('u, 'v) expr list \<Rightarrow> 'u \<Rightarrow> (string \<times> 'v list) \<times> 'u" where
  "eval_va_args ord fmt args m =
     (case ord of
        Left_to_right \<Rightarrow>
          (case fmt m of (f, m') \<Rightarrow> (case eval_args args m' of (vs, m'') \<Rightarrow> ((f, vs), m'')))
      | Right_to_left \<Rightarrow>
          (case eval_args_rtl args m of
             (vs, m') \<Rightarrow> (case fmt m' of (f, m'') \<Rightarrow> ((f, vs), m''))))"

subsection \<open>The call a log statement makes\<close>

text \<open>
  The place of a log statement: \<^verbatim>\<open>__FUNCTION__\<close>, \<^verbatim>\<open>__FILE__\<close> and \<^verbatim>\<open>__LINE__\<close>.
\<close>

record site =
  FUNCTION :: string
  FILE :: string
  LINE :: nat

text \<open>\<^verbatim>\<open>_ZF_LOG_STRINGIFY(__LINE__)\<close>: the line number as the preprocessor spells it, in decimal.\<close>

fun u_ZF_LOG_STRINGIFY :: "nat \<Rightarrow> string" where
  "u_ZF_LOG_STRINGIFY n =
     (if n < 10 then [''0123456789'' ! n]
      else u_ZF_LOG_STRINGIFY (n div 10) @ [''0123456789'' ! (n mod 10)])"

declare u_ZF_LOG_STRINGIFY.simps [simp del]

text \<open>Line 210: \<^verbatim>\<open>__FILE__ ":" _ZF_LOG_STRINGIFY(__LINE__)\<close>, one string literal.\<close>

definition location :: "site \<Rightarrow> string" where
  "location cs = FILE cs @ '':'' @ u_ZF_LOG_STRINGIFY (LINE cs)"

text \<open>
  A call of one of the two writers declared in lines 150--154, with its actual parameters:
  \<^verbatim>\<open>_zf_log_write(lvl, tag, fmt, ...)\<close> and \<^verbatim>\<open>_zf_log_write_d(func, loc, lvl, tag, fmt, ...)\<close>.
\<close>

datatype 'v write_call =
    Write int "string option" string "'v list"
  | Write_d string string int "string option" string "'v list"

text \<open>
  Lines 199--213. A macro yields the call it makes, if it makes one, and the state after
  the evaluation of the arguments. The arguments stand inside the \<^verbatim>\<open>if\<close>, as actual
  parameters of the call, so they are evaluated only when the condition holds.
\<close>

definition u_ZF_LOG_IMP ::
  "build \<Rightarrow> site \<Rightarrow> int \<Rightarrow> string option \<Rightarrow> ('u, string) expr \<Rightarrow> ('u, 'v) expr list \<Rightarrow>
   ('u, 'l) proc \<Rightarrow> 'v write_call option \<times> ('u, 'l) proc" where
  "u_ZF_LOG_IMP b cs lvl tag fmt args st =
     (if NDEBUG b then
        (if ZF_LOG_OUTPUT b st lvl then
           (case eval_va_args (ARG_ORDER b) fmt args (mem st) of
              ((f, vs), m) \<Rightarrow> (Some (Write lvl tag f vs), st\<lparr>mem := m\<rparr>))
         else (None, st))
      else
        (if ZF_LOG_OUTPUT b st lvl then
           (case eval_va_args (ARG_ORDER b) fmt args (mem st) of
              ((f, vs), m) \<Rightarrow>
                (Some (Write_d (FUNCTION cs) (location cs) lvl tag f vs), st\<lparr>mem := m\<rparr>))
         else (None, st)))"

text \<open>
  Lines 215--218: \<^verbatim>\<open>static inline void _zf_log_unused(const int dummy, ...) {(void)dummy;}\<close>
  does nothing, and \<^verbatim>\<open>_ZF_LOG_UNUSED\<close> calls it under \<^verbatim>\<open>if (0)\<close>.
\<close>

definition u_zf_log_unused :: "int \<Rightarrow> string \<times> 'v list \<Rightarrow> ('u, 'l) proc \<Rightarrow> ('u, 'l) proc" where
  "u_zf_log_unused dummy va st = st"

definition u_ZF_LOG_UNUSED ::
  "build \<Rightarrow> ('u, string) expr \<Rightarrow> ('u, 'v) expr list \<Rightarrow> ('u, 'l) proc \<Rightarrow>
   'v write_call option \<times> ('u, 'l) proc" where
  "u_ZF_LOG_UNUSED b fmt args st =
     (if False then
        (case eval_va_args (ARG_ORDER b) fmt args (mem st) of
           (va, m) \<Rightarrow> (None, u_zf_log_unused 0 va (st\<lparr>mem := m\<rparr>)))
      else (None, st))"

text \<open>Lines 220--260: the six logging macros, each chosen by \<^verbatim>\<open>#if ZF_LOG_ALLOW_...\<close>.\<close>

definition ZF_LOGV ::
  "build \<Rightarrow> site \<Rightarrow> ('u, string) expr \<Rightarrow> ('u, 'v) expr list \<Rightarrow> ('u, 'l) proc \<Rightarrow>
   'v write_call option \<times> ('u, 'l) proc" where
  "ZF_LOGV b cs fmt args st =
     (if ZF_LOG_ALLOW_VERBOSE b
      then u_ZF_LOG_IMP b cs ZF_LOG_VERBOSE (u_ZF_LOG_TAG b) fmt args st
      else u_ZF_LOG_UNUSED b fmt args st)"

definition ZF_LOGD ::
  "build \<Rightarrow> site \<Rightarrow> ('u, string) expr \<Rightarrow> ('u, 'v) expr list \<Rightarrow> ('u, 'l) proc \<Rightarrow>
   'v write_call option \<times> ('u, 'l) proc" where
  "ZF_LOGD b cs fmt args st =
     (if ZF_LOG_ALLOW_DEBUG b
      then u_ZF_LOG_IMP b cs ZF_LOG_DEBUG (u_ZF_LOG_TAG b) fmt args st
      else u_ZF_LOG_UNUSED b fmt args st)"

definition ZF_LOGI ::
  "build \<Rightarrow> site \<Rightarrow> ('u, string) expr \<Rightarrow> ('u, 'v) expr list \<Rightarrow> ('u, 'l) proc \<Rightarrow>
   'v write_call option \<times> ('u, 'l) proc" where
  "ZF_LOGI b cs fmt args st =
     (if ZF_LOG_ALLOW_INFO b
      then u_ZF_LOG_IMP b cs ZF_LOG_INFO (u_ZF_LOG_TAG b) fmt args st
      else u_ZF_LOG_UNUSED b fmt args st)"

definition ZF_LOGW ::
  "build \<Rightarrow> site \<Rightarrow> ('u, string) expr \<Rightarrow> ('u, 'v) expr list \<Rightarrow> ('u, 'l) proc \<Rightarrow>
   'v write_call option \<times> ('u, 'l) proc" where
  "ZF_LOGW b cs fmt args st =
     (if ZF_LOG_ALLOW_WARN b
      then u_ZF_LOG_IMP b cs ZF_LOG_WARN (u_ZF_LOG_TAG b) fmt args st
      else u_ZF_LOG_UNUSED b fmt args st)"

definition ZF_LOGE ::
  "build \<Rightarrow> site \<Rightarrow> ('u, string) expr \<Rightarrow> ('u, 'v) expr list \<Rightarrow> ('u, 'l) proc \<Rightarrow>
   'v write_call option \<times> ('u, 'l) proc" where
  "ZF_LOGE b cs fmt args st =
     (if ZF_LOG_ALLOW_ERROR b
      then u_ZF_LOG_IMP b cs ZF_LOG_ERROR (u_ZF_LOG_TAG b) fmt args st
      else u_ZF_LOG_UNUSED b fmt args st)"

definition ZF_LOGF ::
  "build \<Rightarrow> site \<Rightarrow> ('u, string) expr \<Rightarrow> ('u, 'v) expr list \<Rightarrow> ('u, 'l) proc \<Rightarrow>
   'v write_call option \<times> ('u, 'l) proc" where
  "ZF_LOGF b cs fmt args st =
     (if ZF_LOG_ALLOW_FATAL b
      then u_ZF_LOG_IMP b cs ZF_LOG_FATAL (u_ZF_LOG_TAG b) fmt args st
      else u_ZF_LOG_UNUSED b fmt args st)"

text \<open>
  A log statement of a program is one of the six macros at some place, with its arguments.
  \<open>lvl_of\<close> is the level of a macro, \<open>ZF_LOG\<close> its expansion.
\<close>

datatype macro = LOGV | LOGD | LOGI | LOGW | LOGE | LOGF

fun lvl_of :: "macro \<Rightarrow> int" where
  "lvl_of LOGV = ZF_LOG_VERBOSE"
| "lvl_of LOGD = ZF_LOG_DEBUG"
| "lvl_of LOGI = ZF_LOG_INFO"
| "lvl_of LOGW = ZF_LOG_WARN"
| "lvl_of LOGE = ZF_LOG_ERROR"
| "lvl_of LOGF = ZF_LOG_FATAL"

fun ZF_LOG ::
  "macro \<Rightarrow> build \<Rightarrow> site \<Rightarrow> ('u, string) expr \<Rightarrow> ('u, 'v) expr list \<Rightarrow> ('u, 'l) proc \<Rightarrow>
   'v write_call option \<times> ('u, 'l) proc" where
  "ZF_LOG LOGV = ZF_LOGV"
| "ZF_LOG LOGD = ZF_LOGD"
| "ZF_LOG LOGI = ZF_LOGI"
| "ZF_LOG LOGW = ZF_LOGW"
| "ZF_LOG LOGE = ZF_LOGE"
| "ZF_LOG LOGF = ZF_LOGF"

subsection \<open>Running log statements\<close>

text \<open>
  The two writers are external to the header. A statement is run against any behaviour \<open>W\<close>
  of the writers: the macro decides whether a writer is called and with what, \<open>W\<close> what the
  call does.
\<close>

record ('u, 'v) stmt =
  which :: macro
  place :: site
  fmt_of :: "('u, string) expr"
  args_of :: "('u, 'v) expr list"

definition exec_log ::
  "('v write_call \<Rightarrow> ('u, 'l) proc \<Rightarrow> ('u, 'l) proc) \<Rightarrow> build \<Rightarrow> ('u, 'v) stmt \<Rightarrow>
   ('u, 'l) proc \<Rightarrow> ('u, 'l) proc" where
  "exec_log W b s st =
     (case ZF_LOG (which s) b (place s) (fmt_of s) (args_of s) st of
        (None, st') \<Rightarrow> st'
      | (Some c, st') \<Rightarrow> W c st')"

fun exec_logs ::
  "('v write_call \<Rightarrow> ('u, 'l) proc \<Rightarrow> ('u, 'l) proc) \<Rightarrow> build \<Rightarrow> ('u, 'v) stmt list \<Rightarrow>
   ('u, 'l) proc \<Rightarrow> ('u, 'l) proc" where
  "exec_logs W b [] st = st"
| "exec_logs W b (s # ss) st = exec_logs W b ss (exec_log W b s st)"

section \<open>The library behind the header\<close>

text \<open>
  The definitions of the functions the header declares are in \<^verbatim>\<open>zf_log.c\<close>, which is not
  among the sources. Each definition of this section is modelled from the specification and
  says so; what is proved of them is proved of the specification's words, not of code.
\<close>

text \<open>
  Modelled from the spec: what zf\_log.c does to the outside. Section 4.4: the sink is
  invoked with "(level, line, len)", the parameters of \<^verbatim>\<open>zf_log_output_cb\<close> in line 127;
  section 7: a level's helper "may additionally terminate the process". An event is one
  invocation of a callback, known by a name of type \<open>'cb\<close>, with its three actual
  parameters, or a call of \<^verbatim>\<open>abort()\<close>.
\<close>

datatype 'cb event =
    Output 'cb int string nat
  | Abort

text \<open>
  Modelled from the spec: the variables of zf\_log.c. Section 3: the Tag Prefix is "a
  process-wide string (default empty/disabled)", the Output Sink "a single registered
  callback (possibly absent, meaning no output)". \<open>None\<close> is the null pointer. \<open>trace\<close> is
  the list of the events so far, the oldest first.
\<close>

record 'cb library =
  g_tag_prefix :: "string option"
  g_output_cb :: "'cb option"
  trace :: "'cb event list"

type_synonym ('u, 'cb) lproc = "('u, 'cb library) proc"

text \<open>
  Modelled from the spec: the body of \<^verbatim>\<open>zf_log_set_tag_prefix\<close> (zf\_log.c). Section 4.4:
  "\<^verbatim>\<open>set_tag_prefix(prefix)\<close> updates the Tag Prefix (copy semantics)". \<open>None\<close> is the null
  pointer.
\<close>

definition zf_log_set_tag_prefix :: "string option \<Rightarrow> ('u, 'cb) lproc \<Rightarrow> ('u, 'cb) lproc" where
  "zf_log_set_tag_prefix prefix st = st\<lparr>lib := (lib st)\<lparr>g_tag_prefix := prefix\<rparr>\<rparr>"

text \<open>
  Modelled from the spec: the tag resolver of zf\_log.c. Section 4.2: "\<^verbatim>\<open>effective_tag\<close> = if
  a non-null/non-empty prefix is set, prefix + "." + call\_site\_tag, else call\_site\_tag. If
  call\_site\_tag itself is absent (null/zero), the resolver yields just the prefix (or
  nothing)." \<open>None\<close> is "nothing": the line carries no tag.
\<close>

definition effective_tag :: "string option \<Rightarrow> string option \<Rightarrow> string option" where
  "effective_tag prefix tag =
     (case prefix of
        None \<Rightarrow> tag
      | Some p \<Rightarrow>
          (if p = [] then tag
           else (case tag of None \<Rightarrow> Some p | Some t \<Rightarrow> Some (p @ ''.'' @ t))))"

text \<open>
  Modelled from the spec: what zf\_log.c leaves open to the specification. \<open>vformat\<close> is the
  formatted-string rendering engine, out of the specification's scope ("assumed to behave
  like a standard variadic string formatter"). \<open>line_cap\<close> is the number of bytes the line
  buffer holds before the line terminator; section 4.3 has a buffer that can be insufficient
  and does not give its size. \<open>fatal_aborts\<close> says whether the writers terminate the process
  after a message of level \<^verbatim>\<open>ZF_LOG_FATAL\<close>; the header's comment (lines 14--16) says they
  do, section 9 of the specification leaves it open.
\<close>

record 'v impl =
  vformat :: "string \<Rightarrow> 'v list \<Rightarrow> string"
  line_cap :: nat
  fatal_aborts :: bool

text \<open>
  Modelled from the spec: the message formatter of zf\_log.c. Section 4.3: the compact
  variant has the tag and the message, the verbose variant has the function name and
  \<^verbatim>\<open>file:line\<close> alongside them; section 8 has the message at the end of the line. The
  specification does not give the separators: here the parts stand in the order tag,
  function, location, message, one space after the tag and after the location, \<^verbatim>\<open>@\<close>
  between function and location.
\<close>

definition tag_part :: "string option \<Rightarrow> string" where
  "tag_part t = (case t of None \<Rightarrow> [] | Some s \<Rightarrow> s @ '' '')"

text \<open>
  Modelled from the spec: the compact variant of section 4.3, "omits call-site metadata":
  the tag, when there is one, and the message.
\<close>

definition compact_line :: "string option \<Rightarrow> string \<Rightarrow> string" where
  "compact_line etag msg = tag_part etag @ msg"

text \<open>
  Modelled from the spec: the verbose variant of section 4.3, "includes function name and
  \<^verbatim>\<open>file:line\<close> alongside tag and message".
\<close>

definition verbose_line :: "string \<Rightarrow> string \<Rightarrow> string option \<Rightarrow> string \<Rightarrow> string" where
  "verbose_line func loc etag msg = tag_part etag @ func @ ''@'' @ loc @ '' '' @ msg"

text \<open>
  Modelled from the spec: the line terminator of zf\_log.c. Section 4.3: "a single text line
  terminated by a line-feed, null-terminated, with the byte length excluding the trailing
  line terminator reported separately", and on an insufficient buffer "truncate the line and
  still deliver it to the sink rather than dropping it". The buffer handed to the sink is the
  text cut to the capacity, a line feed and the terminating zero byte.
\<close>

definition EOL :: string where
  "EOL = [CHR 0x0A]"

text \<open>
  Modelled from the spec: the buffer and the length that the formatter of section 4.3 gives
  for a text, with a line buffer of \<open>cap\<close> bytes.
\<close>

definition line_buf :: "nat \<Rightarrow> string \<Rightarrow> string \<times> nat" where
  "line_buf cap text = (take cap text @ EOL @ [CHR 0x00], length (take cap text))"

text \<open>
  Modelled from the spec: the dispatch of zf\_log.c. Section 4.4: "invokes the currently
  registered sink exactly once per allowed log call, synchronously"; section 7: "No sink
  registered: not an error; dispatch becomes a silent no-op".
\<close>

definition dispatch :: "int \<Rightarrow> string \<times> nat \<Rightarrow> ('u, 'cb) lproc \<Rightarrow> ('u, 'cb) lproc" where
  "dispatch lvl ln st =
     (case g_output_cb (lib st) of
        None \<Rightarrow> st
      | Some cb \<Rightarrow>
          st\<lparr>lib := (lib st)\<lparr>trace := trace (lib st) @ [Output cb lvl (fst ln) (snd ln)]\<rparr>\<rparr>)"

text \<open>
  Modelled from the spec: the termination after a fatal message (zf\_log.c). Section 7: the
  most severe level's "logging helper may additionally terminate the process after
  successful dispatch".
\<close>

definition fatal_exit :: "'v impl \<Rightarrow> int \<Rightarrow> ('u, 'cb) lproc \<Rightarrow> ('u, 'cb) lproc" where
  "fatal_exit I lvl st =
     (if fatal_aborts I \<and> lvl = ZF_LOG_FATAL
      then st\<lparr>lib := (lib st)\<lparr>trace := trace (lib st) @ [Abort]\<rparr>\<rparr>
      else st)"

text \<open>
  Modelled from the spec: the body of \<^verbatim>\<open>_zf_log_write\<close> (zf\_log.c), the compact variant of
  section 4.3: resolve the tag, format, dispatch.
\<close>

definition u_zf_log_write ::
  "'v impl \<Rightarrow> int \<Rightarrow> string option \<Rightarrow> string \<Rightarrow> 'v list \<Rightarrow> ('u, 'cb) lproc \<Rightarrow> ('u, 'cb) lproc" where
  "u_zf_log_write I lvl tag fmt vs st =
     fatal_exit I lvl
       (dispatch lvl
          (line_buf (line_cap I)
             (compact_line (effective_tag (g_tag_prefix (lib st)) tag) (vformat I fmt vs)))
          st)"

text \<open>
  Modelled from the spec: the body of \<^verbatim>\<open>_zf_log_write_d\<close> (zf\_log.c), the verbose variant
  of section 4.3.
\<close>

definition u_zf_log_write_d ::
  "'v impl \<Rightarrow> string \<Rightarrow> string \<Rightarrow> int \<Rightarrow> string option \<Rightarrow> string \<Rightarrow> 'v list \<Rightarrow>
   ('u, 'cb) lproc \<Rightarrow> ('u, 'cb) lproc" where
  "u_zf_log_write_d I func loc lvl tag fmt vs st =
     fatal_exit I lvl
       (dispatch lvl
          (line_buf (line_cap I)
             (verbose_line func loc (effective_tag (g_tag_prefix (lib st)) tag) (vformat I fmt vs)))
          st)"

text \<open>
  Modelled from the spec: the two writers of zf\_log.c as one behaviour, to run statements
  against.
\<close>

fun zf_log_c :: "'v impl \<Rightarrow> 'v write_call \<Rightarrow> ('u, 'cb) lproc \<Rightarrow> ('u, 'cb) lproc" where
  "zf_log_c I (Write lvl tag fmt vs) st = u_zf_log_write I lvl tag fmt vs st"
| "zf_log_c I (Write_d func loc lvl tag fmt vs) st = u_zf_log_write_d I func loc lvl tag fmt vs st"

text \<open>
  Modelled from the spec: what one statement, run against the writers above, adds to the
  trace.
\<close>

definition emitted ::
  "'v impl \<Rightarrow> build \<Rightarrow> ('u, 'v) stmt \<Rightarrow> ('u, 'cb) lproc \<Rightarrow> 'cb event list" where
  "emitted I b s st = drop (length (trace (lib st))) (trace (lib (exec_log (zf_log_c I) b s st)))"

text \<open>
  Modelled from the spec: the formatted message of a statement, "format string with
  arguments" put through the formatter (section 4.3), the arguments evaluated in the memory
  \<open>m\<close> of the call in the order of the build.
\<close>

definition message :: "'v impl \<Rightarrow> build \<Rightarrow> ('u, 'v) stmt \<Rightarrow> 'u \<Rightarrow> string" where
  "message I b s m =
     (case eval_va_args (ARG_ORDER b) (fmt_of s) (args_of s) m of
        ((f, vs), m') \<Rightarrow> vformat I f vs)"

text \<open>
  Modelled from the spec: the text of a statement's line for an effective tag, in the variant
  of the build: section 4.3 has the compact variant "used in release builds", the verbose
  one "in non-release builds".
\<close>

definition line_of :: "'v impl \<Rightarrow> build \<Rightarrow> ('u, 'v) stmt \<Rightarrow> string option \<Rightarrow> 'u \<Rightarrow> string" where
  "line_of I b s etag m =
     (if NDEBUG b then compact_line etag (message I b s m)
      else verbose_line (FUNCTION (place s)) (location (place s)) etag (message I b s m))"

text \<open>
  Modelled from the spec: the buffer and the length that the sink gets for a statement run
  in the state \<open>st\<close> (sections 4.2 to 4.4: resolve the tag, format, cut to the buffer).
\<close>

definition sink_buf ::
  "'v impl \<Rightarrow> build \<Rightarrow> ('u, 'v) stmt \<Rightarrow> ('u, 'cb) lproc \<Rightarrow> string \<times> nat" where
  "sink_buf I b s st =
     line_buf (line_cap I)
       (line_of I b s (effective_tag (g_tag_prefix (lib st)) (u_ZF_LOG_TAG b)) (mem st))"

section \<open>Example programs\<close>

text \<open>
  Concrete units, states and statements on which the theorems below are instantiated. The
  program's memory is a counter, \<open>tick\<close> is an argument like \<^verbatim>\<open>i++\<close>, and callbacks are
  known by a number.
\<close>

definition unit_of :: "int option \<Rightarrow> int option \<Rightarrow> bool \<Rightarrow> string option \<Rightarrow> build" where
  "unit_of l d n t =
     \<lparr>ZF_LOG_LEVEL = l, ZF_LOG_DEF_LEVEL = d, NDEBUG = n, ZF_LOG_TAG = t, ZF_LOG_DEF_TAG = None,
      ARG_ORDER = Right_to_left\<rparr>"

definition bare :: "int \<Rightarrow> (nat, unit) proc" where
  "bare t = \<lparr>u_zf_log_output_lvl = t, mem = 0, lib = ()\<rparr>"

definition state_of :: "int \<Rightarrow> string option \<Rightarrow> nat option \<Rightarrow> (nat, nat) lproc" where
  "state_of t p cb =
     \<lparr>u_zf_log_output_lvl = t, mem = 0,
      lib = \<lparr>g_tag_prefix = p, g_output_cb = cb, trace = []\<rparr>\<rparr>"

definition tick :: "(nat, nat) expr" where
  "tick n = (n, Suc n)"

definition lit :: "string \<Rightarrow> (nat, string) expr" where
  "lit s n = (s, n)"

definition at_main :: site where
  "at_main = \<lparr>FUNCTION = ''main'', FILE = ''a.c'', LINE = 42\<rparr>"

definition stmt_of :: "macro \<Rightarrow> string \<Rightarrow> (nat, nat) stmt" where
  "stmt_of m f = \<lparr>which = m, place = at_main, fmt_of = lit f, args_of = [tick]\<rparr>"

text \<open>A writer that leaves a mark in the memory whenever it is called.\<close>

definition marking :: "nat write_call \<Rightarrow> (nat, unit) proc \<Rightarrow> (nat, unit) proc" where
  "marking c st = st\<lparr>mem := mem st + 100\<rparr>"

text \<open>
  A formatter that knows \<^verbatim>\<open>%d\<close>, an argument that yields 42 and counts its evaluations in
  the memory, and the statement of the specification's scenario.
\<close>

fun printf_d :: "string \<Rightarrow> nat list \<Rightarrow> string" where
  "printf_d [] vs = []"
| "printf_d [c] vs = [c]"
| "printf_d (c # d # r) vs =
     (if c = CHR ''%'' \<and> d = CHR ''d''
      then (case vs of
              [] \<Rightarrow> c # d # printf_d r []
            | v # vs' \<Rightarrow> u_ZF_LOG_STRINGIFY v @ printf_d r vs')
      else c # printf_d (d # r) vs)"

definition libc :: "nat \<Rightarrow> bool \<Rightarrow> nat impl" where
  "libc cap a = \<lparr>vformat = printf_d, line_cap = cap, fatal_aborts = a\<rparr>"

definition pid :: "(nat, nat) expr" where
  "pid n = (42, Suc n)"

definition started :: "macro \<Rightarrow> (nat, nat) stmt" where
  "started m =
     \<lparr>which = m, place = at_main, fmt_of = lit ''started pid=%d'', args_of = [pid]\<rparr>"

section \<open>Properties of the header\<close>

lemmas level_defs =
  ZF_LOG_VERBOSE_def ZF_LOG_DEBUG_def ZF_LOG_INFO_def ZF_LOG_WARN_def
  ZF_LOG_ERROR_def ZF_LOG_FATAL_def ZF_LOG_NONE_def

lemmas allow_defs =
  ZF_LOG_ALLOW_VERBOSE_def ZF_LOG_ALLOW_DEBUG_def ZF_LOG_ALLOW_INFO_def
  ZF_LOG_ALLOW_WARN_def ZF_LOG_ALLOW_ERROR_def ZF_LOG_ALLOW_FATAL_def

lemma ZF_LOG_unfold:
  "ZF_LOG m b cs fmt args st =
     (if ZF_LOG_ALLOW b (lvl_of m)
      then u_ZF_LOG_IMP b cs (lvl_of m) (u_ZF_LOG_TAG b) fmt args st
      else u_ZF_LOG_UNUSED b fmt args st)"
  by (cases m)
    (simp_all add: ZF_LOGV_def ZF_LOGD_def ZF_LOGI_def ZF_LOGW_def ZF_LOGE_def ZF_LOGF_def
      allow_defs)

lemma u_ZF_LOG_UNUSED_noop: "u_ZF_LOG_UNUSED b fmt args st = (None, st)"
  by (simp add: u_ZF_LOG_UNUSED_def)

lemma u_ZF_LOG_IMP_calls:
  "(fst (u_ZF_LOG_IMP b cs lvl tag fmt args st) = None) = (\<not> ZF_LOG_OUTPUT b st lvl)"
  by (simp add: u_ZF_LOG_IMP_def split: prod.splits)

lemma u_ZF_LOG_IMP_filtered:
  "\<not> ZF_LOG_OUTPUT b st lvl \<Longrightarrow> u_ZF_LOG_IMP b cs lvl tag fmt args st = (None, st)"
  by (simp add: u_ZF_LOG_IMP_def)

lemma ZF_LOG_calls:
  "(fst (ZF_LOG m b cs fmt args st) = None) = (\<not> ZF_LOG_OUTPUT b st (lvl_of m))"
  by (simp add: ZF_LOG_unfold u_ZF_LOG_IMP_calls u_ZF_LOG_UNUSED_noop ZF_LOG_OUTPUT_def)

lemma ZF_LOG_suppressed:
  "\<not> ZF_LOG_OUTPUT b st (lvl_of m) \<Longrightarrow> ZF_LOG m b cs fmt args st = (None, st)"
  by (simp add: ZF_LOG_unfold u_ZF_LOG_IMP_filtered u_ZF_LOG_UNUSED_noop)

text \<open>
  C1. A log statement at level \<open>L\<close> calls a writer exactly when \<open>L\<close> is at least the current
  (compile-time) log level and at least the output log level. The run-time predicate
  \<^verbatim>\<open>ZF_LOG_OUTPUT\<close> is the compile-time predicate \<^verbatim>\<open>ZF_LOG_ALLOW\<close> and the comparison with
  the output level, so the least level that is written is the maximum of the two.
\<close>

theorem C1_emission_predicate:
  "(fst (ZF_LOG m b cs fmt args st) \<noteq> None)
     = (lvl_of m \<ge> u_ZF_LOG_LEVEL b \<and> lvl_of m \<ge> u_zf_log_output_lvl st)
   \<and> ZF_LOG_OUTPUT b st L = (ZF_LOG_ALLOW b L \<and> L \<ge> u_zf_log_output_lvl st)
   \<and> ZF_LOG_ALLOW b L = (L \<ge> u_ZF_LOG_LEVEL b)
   \<and> ZF_LOG_OUTPUT b st L = (L \<ge> max (u_ZF_LOG_LEVEL b) (u_zf_log_output_lvl st))
   \<and> (fst (ZF_LOG m b cs fmt args st) \<noteq> None)
     = (lvl_of m \<ge> max (u_ZF_LOG_LEVEL b) (u_zf_log_output_lvl st))"
proof -
  have "(fst (ZF_LOG m b cs fmt args st) \<noteq> None) = ZF_LOG_OUTPUT b st (lvl_of m)"
    by (simp only: ZF_LOG_calls not_not)
  then show ?thesis
    unfolding ZF_LOG_OUTPUT_def ZF_LOG_ALLOW_def by auto
qed

lemma exec_log_suppressed:
  "\<not> ZF_LOG_OUTPUT b st (lvl_of (which s)) \<Longrightarrow> exec_log W b s st = st"
  by (simp add: exec_log_def ZF_LOG_suppressed)

lemma lvl_of_real: "ZF_LOG_VERBOSE \<le> lvl_of m \<and> lvl_of m \<le> ZF_LOG_FATAL"
  by (cases m) (simp_all add: level_defs)

text \<open>
  C2. A logging macro whose level is below the current log level expands to
  \<^verbatim>\<open>_ZF_LOG_UNUSED\<close>: it calls no writer and leaves the whole state as it was, whatever its
  arguments are, so none of them is evaluated. Run against any writer, the statement
  changes nothing.
\<close>

theorem C2_compiled_out_noop:
  assumes "lvl_of (which s) < u_ZF_LOG_LEVEL b"
  shows "ZF_LOG (which s) b (place s) (fmt_of s) (args_of s) st
           = u_ZF_LOG_UNUSED b (fmt_of s) (args_of s) st
       \<and> ZF_LOG (which s) b (place s) (fmt_of s) (args_of s) st = (None, st)
       \<and> exec_log W b s st = st"
proof -
  from assms have "\<not> ZF_LOG_ALLOW b (lvl_of (which s))"
    by (simp add: ZF_LOG_ALLOW_def)
  then show ?thesis
    by (simp add: ZF_LOG_unfold u_ZF_LOG_UNUSED_noop exec_log_def)
qed

theorem C2_compiled_out_noop_witness:
  "lvl_of (which (stmt_of LOGD ''x=%d'')) < u_ZF_LOG_LEVEL (unit_of (Some ZF_LOG_WARN) None False None)
   \<and> exec_log marking (unit_of (Some ZF_LOG_WARN) None False None) (stmt_of LOGD ''x=%d'')
        (bare 0) = bare 0
   \<and> mem (exec_log marking (unit_of (Some ZF_LOG_WARN) None False None) (stmt_of LOGW ''x=%d'')
        (bare 0)) = 101"
proof -
  have h: "lvl_of (which (stmt_of LOGD ''x=%d''))
             < u_ZF_LOG_LEVEL (unit_of (Some ZF_LOG_WARN) None False None)"
    by (simp add: stmt_of_def unit_of_def u_ZF_LOG_LEVEL_def level_defs)
  have w: "mem (exec_log marking (unit_of (Some ZF_LOG_WARN) None False None)
             (stmt_of LOGW ''x=%d'') (bare 0)) = 101"
    by (simp add: exec_log_def ZF_LOGW_def allow_defs ZF_LOG_ALLOW_def ZF_LOG_OUTPUT_def
        u_ZF_LOG_IMP_def
        u_ZF_LOG_LEVEL_def eval_va_args_def stmt_of_def unit_of_def lit_def
        tick_def marking_def level_defs bare_def)
  from h w C2_compiled_out_noop [OF h, of "bare 0" marking]
  show ?thesis by simp
qed

text \<open>
  C3. With the output log level set to a value \<open>t\<close> below the current log level, every
  statement behaves as with the output level equal to the current level: it makes the same
  call and leaves the same state (but for the variable itself), and a writer is called
  exactly by the statements whose level is at least the current log level.
\<close>

theorem C3_threshold_below_floor:
  assumes "t < u_ZF_LOG_LEVEL b"
  shows "ZF_LOG_OUTPUT b (st\<lparr>u_zf_log_output_lvl := t\<rparr>) L
           = ZF_LOG_OUTPUT b (st\<lparr>u_zf_log_output_lvl := u_ZF_LOG_LEVEL b\<rparr>) L
       \<and> ZF_LOG_OUTPUT b (st\<lparr>u_zf_log_output_lvl := t\<rparr>) L = (L \<ge> u_ZF_LOG_LEVEL b)
       \<and> ZF_LOG m b cs fmt args (st\<lparr>u_zf_log_output_lvl := u_ZF_LOG_LEVEL b\<rparr>)
           = map_prod id (\<lambda>s. s\<lparr>u_zf_log_output_lvl := u_ZF_LOG_LEVEL b\<rparr>)
               (ZF_LOG m b cs fmt args (st\<lparr>u_zf_log_output_lvl := t\<rparr>))
       \<and> (fst (ZF_LOG m b cs fmt args (st\<lparr>u_zf_log_output_lvl := t\<rparr>)) \<noteq> None)
           = (lvl_of m \<ge> u_ZF_LOG_LEVEL b)"
proof -
  have out: "\<And>K. ZF_LOG_OUTPUT b (st\<lparr>u_zf_log_output_lvl := t\<rparr>) K = (K \<ge> u_ZF_LOG_LEVEL b)"
    using assms by (auto simp add: ZF_LOG_OUTPUT_def ZF_LOG_ALLOW_def)
  have out': "\<And>K. ZF_LOG_OUTPUT b (st\<lparr>u_zf_log_output_lvl := u_ZF_LOG_LEVEL b\<rparr>) K
                = (K \<ge> u_ZF_LOG_LEVEL b)"
    by (auto simp add: ZF_LOG_OUTPUT_def ZF_LOG_ALLOW_def)
  have same: "ZF_LOG m b cs fmt args (st\<lparr>u_zf_log_output_lvl := u_ZF_LOG_LEVEL b\<rparr>)
           = map_prod id (\<lambda>s. s\<lparr>u_zf_log_output_lvl := u_ZF_LOG_LEVEL b\<rparr>)
               (ZF_LOG m b cs fmt args (st\<lparr>u_zf_log_output_lvl := t\<rparr>))"
    by (simp add: ZF_LOG_unfold u_ZF_LOG_IMP_def u_ZF_LOG_UNUSED_noop out out'
        split: prod.splits)
  have calls: "(fst (ZF_LOG m b cs fmt args (st\<lparr>u_zf_log_output_lvl := t\<rparr>)) \<noteq> None)
           = (lvl_of m \<ge> u_ZF_LOG_LEVEL b)"
    by (simp only: ZF_LOG_calls not_not out)
  from out out' same calls show ?thesis by simp
qed

theorem C3_threshold_below_floor_witness:
  "ZF_LOG_VERBOSE < u_ZF_LOG_LEVEL (unit_of None (Some ZF_LOG_INFO) False None)
   \<and> \<not> ZF_LOG_OUTPUT (unit_of None (Some ZF_LOG_INFO) False None)
         ((bare 0)\<lparr>u_zf_log_output_lvl := ZF_LOG_VERBOSE\<rparr>) ZF_LOG_DEBUG
   \<and> ZF_LOG_OUTPUT (unit_of None (Some ZF_LOG_INFO) False None)
         ((bare 0)\<lparr>u_zf_log_output_lvl := ZF_LOG_VERBOSE\<rparr>) ZF_LOG_INFO"
proof -
  have h: "ZF_LOG_VERBOSE < u_ZF_LOG_LEVEL (unit_of None (Some ZF_LOG_INFO) False None)"
    by (simp add: unit_of_def u_ZF_LOG_LEVEL_def level_defs)
  have f: "u_ZF_LOG_LEVEL (unit_of None (Some ZF_LOG_INFO) False None) = 3"
    by (simp add: unit_of_def u_ZF_LOG_LEVEL_def level_defs)
  note c = C3_threshold_below_floor [OF h, THEN conjunct2, THEN conjunct1]
  have d: "\<not> ZF_LOG_OUTPUT (unit_of None (Some ZF_LOG_INFO) False None)
         ((bare 0)\<lparr>u_zf_log_output_lvl := ZF_LOG_VERBOSE\<rparr>) ZF_LOG_DEBUG"
    by (simp only: c f) (simp add: level_defs)
  have i: "ZF_LOG_OUTPUT (unit_of None (Some ZF_LOG_INFO) False None)
         ((bare 0)\<lparr>u_zf_log_output_lvl := ZF_LOG_VERBOSE\<rparr>) ZF_LOG_INFO"
    by (simp only: c f) (simp add: level_defs)
  from h d i show ?thesis by simp
qed

lemma exec_logs_silent:
  "\<forall>s \<in> set ss. \<not> ZF_LOG_OUTPUT b st (lvl_of (which s)) \<Longrightarrow> exec_logs W b ss st = st"
  by (induction ss) (simp_all add: exec_log_suppressed)

text \<open>
  C4. The level constants have the values 1 to 6 and 0xFFFF and increase strictly from
  VERBOSE to NONE, so NONE is above the level of every logging macro. With the output log
  level at NONE, a statement of any of the six macros calls no writer and changes nothing,
  and so does any sequence of them, against any writer: the output callback is never
  reached.
\<close>

theorem C4_levels_ordered_none_silences:
  "ZF_LOG_VERBOSE = 1 \<and> ZF_LOG_DEBUG = 2 \<and> ZF_LOG_INFO = 3 \<and> ZF_LOG_WARN = 4
   \<and> ZF_LOG_ERROR = 5 \<and> ZF_LOG_FATAL = 6 \<and> ZF_LOG_NONE = 0xFFFF
   \<and> ZF_LOG_VERBOSE < ZF_LOG_DEBUG \<and> ZF_LOG_DEBUG < ZF_LOG_INFO \<and> ZF_LOG_INFO < ZF_LOG_WARN
   \<and> ZF_LOG_WARN < ZF_LOG_ERROR \<and> ZF_LOG_ERROR < ZF_LOG_FATAL \<and> ZF_LOG_FATAL < ZF_LOG_NONE
   \<and> lvl_of m < ZF_LOG_NONE
   \<and> (u_zf_log_output_lvl st = ZF_LOG_NONE \<longrightarrow>
        ZF_LOG m b cs fmt args st = (None, st)
        \<and> exec_logs W b ss st = st)"
proof -
  have lt: "\<And>k. lvl_of k < ZF_LOG_NONE"
    using lvl_of_real by (simp add: level_defs) (smt (verit))
  have off: "u_zf_log_output_lvl st = ZF_LOG_NONE \<Longrightarrow> \<not> ZF_LOG_OUTPUT b st (lvl_of k)" for k
    using lt [of k] by (simp add: ZF_LOG_OUTPUT_def)
  have one: "u_zf_log_output_lvl st = ZF_LOG_NONE \<Longrightarrow> ZF_LOG m b cs fmt args st = (None, st)"
    by (rule ZF_LOG_suppressed) (rule off)
  have many: "u_zf_log_output_lvl st = ZF_LOG_NONE \<Longrightarrow> exec_logs W b ss st = st"
    by (rule exec_logs_silent) (simp add: off)
  from lt [of m] one many show ?thesis
    by (simp add: level_defs)
qed

theorem C4_levels_ordered_none_silences_witness:
  "u_zf_log_output_lvl (bare ZF_LOG_NONE) = ZF_LOG_NONE
   \<and> exec_logs marking (unit_of (Some ZF_LOG_VERBOSE) None False None)
        [stmt_of LOGV ''a'', stmt_of LOGE ''b'', stmt_of LOGF ''c'']
        (bare ZF_LOG_NONE) = bare ZF_LOG_NONE"
proof -
  have h: "u_zf_log_output_lvl (bare ZF_LOG_NONE) = ZF_LOG_NONE"
    by (simp add: bare_def)
  from h C4_levels_ordered_none_silences [of LOGV "bare ZF_LOG_NONE"
      "unit_of (Some ZF_LOG_VERBOSE) None False None" at_main "lit ''a''" "[tick]" marking
      "[stmt_of LOGV ''a'', stmt_of LOGE ''b'', stmt_of LOGF ''c'']"]
  show ?thesis by blast
qed

text \<open>
  C5. The current log level is \<^verbatim>\<open>ZF_LOG_LEVEL\<close> when the unit defines it; otherwise
  \<^verbatim>\<open>ZF_LOG_DEF_LEVEL\<close> when that is defined; otherwise \<^verbatim>\<open>ZF_LOG_INFO\<close> when \<^verbatim>\<open>NDEBUG\<close> is
  defined and \<^verbatim>\<open>ZF_LOG_DEBUG\<close> when it is not.
\<close>

theorem C5_floor_priority:
  "(ZF_LOG_LEVEL b = Some l \<longrightarrow> u_ZF_LOG_LEVEL b = l)
   \<and> (ZF_LOG_LEVEL b = None \<and> ZF_LOG_DEF_LEVEL b = Some d \<longrightarrow> u_ZF_LOG_LEVEL b = d)
   \<and> (ZF_LOG_LEVEL b = None \<and> ZF_LOG_DEF_LEVEL b = None \<and> NDEBUG b \<longrightarrow>
        u_ZF_LOG_LEVEL b = ZF_LOG_INFO)
   \<and> (ZF_LOG_LEVEL b = None \<and> ZF_LOG_DEF_LEVEL b = None \<and> \<not> NDEBUG b \<longrightarrow>
        u_ZF_LOG_LEVEL b = ZF_LOG_DEBUG)"
  by (simp add: u_ZF_LOG_LEVEL_def)

theorem C5_floor_priority_witness:
  "u_ZF_LOG_LEVEL (unit_of (Some ZF_LOG_ERROR) (Some ZF_LOG_WARN) True None) = ZF_LOG_ERROR
   \<and> u_ZF_LOG_LEVEL (unit_of None (Some ZF_LOG_WARN) True None) = ZF_LOG_WARN
   \<and> u_ZF_LOG_LEVEL (unit_of None None True None) = ZF_LOG_INFO
   \<and> u_ZF_LOG_LEVEL (unit_of None None False None) = ZF_LOG_DEBUG"
  using C5_floor_priority [of "unit_of (Some ZF_LOG_ERROR) (Some ZF_LOG_WARN) True None"
      ZF_LOG_ERROR ZF_LOG_WARN]
    C5_floor_priority [of "unit_of None (Some ZF_LOG_WARN) True None" ZF_LOG_WARN ZF_LOG_WARN]
    C5_floor_priority [of "unit_of None None True None" 0 0]
    C5_floor_priority [of "unit_of None None False None" 0 0]
  by (simp add: unit_of_def)

text \<open>
  C10. Whether a log statement calls a writer is a function of its level, the current log
  level and the output log level alone: two statements of the same macro, in units with the
  same current level and states with the same output level, both call a writer or both do
  not, whatever the tags, the tag prefixes, the format strings, the arguments, the places,
  the callbacks and the memories are.
\<close>

theorem C10_decision_depends_on_levels_only:
  assumes "u_ZF_LOG_LEVEL b1 = u_ZF_LOG_LEVEL b2"
    and "u_zf_log_output_lvl st1 = u_zf_log_output_lvl st2"
  shows "(fst (ZF_LOG m b1 cs1 fmt1 args1 st1) = None)
           = (fst (ZF_LOG m b2 cs2 fmt2 args2 st2) = None)"
  using assms by (simp add: ZF_LOG_calls ZF_LOG_OUTPUT_def ZF_LOG_ALLOW_def)

theorem C10_decision_depends_on_levels_only_witness:
  "u_ZF_LOG_LEVEL (unit_of (Some ZF_LOG_WARN) None False (Some ''NET''))
     = u_ZF_LOG_LEVEL (unit_of None (Some ZF_LOG_WARN) True None)
   \<and> u_zf_log_output_lvl (bare ZF_LOG_DEBUG)
     = u_zf_log_output_lvl \<lparr>u_zf_log_output_lvl = ZF_LOG_DEBUG, mem = 7, lib = ''APP''\<rparr>
   \<and> (fst (ZF_LOG LOGE (unit_of (Some ZF_LOG_WARN) None False (Some ''NET'')) at_main
              (lit ''a'') [tick] (bare ZF_LOG_DEBUG)) = None)
     = (fst (ZF_LOG LOGE (unit_of None (Some ZF_LOG_WARN) True None) (at_main\<lparr>LINE := 7\<rparr>)
              (lit ''b %d %d'') [tick, tick] \<lparr>u_zf_log_output_lvl = ZF_LOG_DEBUG, mem = 7, lib = ''APP''\<rparr>) = None)"
proof -
  have f: "u_ZF_LOG_LEVEL (unit_of (Some ZF_LOG_WARN) None False (Some ''NET''))
     = u_ZF_LOG_LEVEL (unit_of None (Some ZF_LOG_WARN) True None)"
    by (simp add: unit_of_def u_ZF_LOG_LEVEL_def)
  have t: "u_zf_log_output_lvl (bare ZF_LOG_DEBUG)
     = u_zf_log_output_lvl \<lparr>u_zf_log_output_lvl = ZF_LOG_DEBUG, mem = 7, lib = ''APP''\<rparr>"
    by (simp add: bare_def)
  from f t C10_decision_depends_on_levels_only [OF f t] show ?thesis by blast
qed

section \<open>Properties of the modelled library\<close>

lemma exec_log_writes:
  assumes "ZF_LOG_OUTPUT b st (lvl_of (which s))"
  shows "exec_log (zf_log_c I) b s st =
           fatal_exit I (lvl_of (which s))
             (dispatch (lvl_of (which s)) (sink_buf I b s st)
                (st\<lparr>mem := snd (eval_va_args (ARG_ORDER b) (fmt_of s) (args_of s) (mem st))\<rparr>))"
proof -
  from assms have a: "ZF_LOG_ALLOW b (lvl_of (which s))"
    by (simp add: ZF_LOG_OUTPUT_def)
  show ?thesis
    using assms a
    by (simp add: exec_log_def ZF_LOG_unfold u_ZF_LOG_IMP_def u_zf_log_write_def
        u_zf_log_write_d_def sink_buf_def line_of_def message_def dispatch_def
        split: prod.splits option.splits)
qed

lemma emitted_writes:
  assumes "ZF_LOG_OUTPUT b st (lvl_of (which s))"
  shows "emitted I b s st =
           (case g_output_cb (lib st) of
              None \<Rightarrow> []
            | Some cb \<Rightarrow>
                [Output cb (lvl_of (which s)) (fst (sink_buf I b s st)) (snd (sink_buf I b s st))])
           @ (if fatal_aborts I \<and> which s = LOGF then [Abort] else [])"
proof -
  have f: "(lvl_of (which s) = ZF_LOG_FATAL) = (which s = LOGF)"
    by (cases "which s") (simp_all add: level_defs)
  show ?thesis
    by (simp add: emitted_def exec_log_writes [OF assms] fatal_exit_def dispatch_def f
        split: option.splits)
qed

lemma emitted_suppressed:
  "\<not> ZF_LOG_OUTPUT b st (lvl_of (which s)) \<Longrightarrow> emitted I b s st = []"
  by (simp add: emitted_def exec_log_suppressed)

lemma trace_exec_log: "trace (lib (exec_log (zf_log_c I) b s st)) = trace (lib st) @ emitted I b s st"
proof (cases "ZF_LOG_OUTPUT b st (lvl_of (which s))")
  case True
  then show ?thesis
  by (simp add: emitted_def exec_log_writes fatal_exit_def dispatch_def
        split: option.splits)
next
  case False
  then show ?thesis by (simp add: emitted_def exec_log_suppressed)
qed

lemma exec_log_config:
  "u_zf_log_output_lvl (exec_log (zf_log_c I) b s st) = u_zf_log_output_lvl st
   \<and> g_tag_prefix (lib (exec_log (zf_log_c I) b s st)) = g_tag_prefix (lib st)
   \<and> g_output_cb (lib (exec_log (zf_log_c I) b s st)) = g_output_cb (lib st)"
proof (cases "ZF_LOG_OUTPUT b st (lvl_of (which s))")
  case True
  then show ?thesis
    by (simp add: exec_log_writes fatal_exit_def dispatch_def split: option.splits)
next
  case False
  then show ?thesis by (simp add: exec_log_suppressed)
qed

lemma effective_tag_cases:
  "(p \<noteq> [] \<longrightarrow> effective_tag (Some p) (Some t) = Some (p @ ''.'' @ t))
   \<and> effective_tag None (Some t) = Some t
   \<and> effective_tag (Some []) (Some t) = Some t
   \<and> (p \<noteq> [] \<longrightarrow> effective_tag (Some p) None = Some p)
   \<and> effective_tag None None = None
   \<and> effective_tag (Some []) None = None"
  by (simp add: effective_tag_def)

lemma emitted_after_prefix_change:
  assumes "ZF_LOG_OUTPUT b st (lvl_of (which s2))" and "g_output_cb (lib st) = Some cb"
  shows "(let st1 = exec_log (zf_log_c I) b s1 (zf_log_set_tag_prefix p1 st);
              st2 = zf_log_set_tag_prefix p2 st1;
              ln = line_buf (line_cap I)
                     (line_of I b s2 (effective_tag p2 (u_ZF_LOG_TAG b)) (mem st1))
          in emitted I b s2 st2 =
               Output cb (lvl_of (which s2)) (fst ln) (snd ln)
                 # (if fatal_aborts I \<and> which s2 = LOGF then [Abort] else []))"
proof -
  define st1 where "st1 = exec_log (zf_log_c I) b s1 (zf_log_set_tag_prefix p1 st)"
  define st2 where "st2 = zf_log_set_tag_prefix p2 st1"
  have lvl: "u_zf_log_output_lvl st2 = u_zf_log_output_lvl st"
    by (simp add: st2_def st1_def zf_log_set_tag_prefix_def exec_log_config)
  have cb: "g_output_cb (lib st2) = Some cb"
    using assms(2) by (simp add: st2_def st1_def zf_log_set_tag_prefix_def exec_log_config)
  have out: "ZF_LOG_OUTPUT b st2 (lvl_of (which s2))"
    using assms(1) lvl by (simp add: ZF_LOG_OUTPUT_def)
  have buf: "sink_buf I b s2 st2
      = line_buf (line_cap I) (line_of I b s2 (effective_tag p2 (u_ZF_LOG_TAG b)) (mem st1))"
    by (simp add: sink_buf_def st2_def zf_log_set_tag_prefix_def)
  have "emitted I b s2 st2 =
          Output cb (lvl_of (which s2)) (fst (sink_buf I b s2 st2)) (snd (sink_buf I b s2 st2))
            # (if fatal_aborts I \<and> which s2 = LOGF then [Abort] else [])"
    by (simp add: emitted_writes [OF out] cb)
  then show ?thesis
    by (simp add: buf st1_def [symmetric] st2_def [symmetric] Let_def)
qed

lemma abort_only_fatal:
  "(which s \<noteq> LOGF \<longrightarrow> Abort \<notin> set (emitted I b s st))
   \<and> (Abort \<in> set (emitted I b s st) \<longrightarrow>
        which s = LOGF \<and> fatal_aborts I \<and> ZF_LOG_OUTPUT b st ZF_LOG_FATAL
        \<and> emitted I b s st =
            (case g_output_cb (lib st) of
               None \<Rightarrow> []
             | Some cb \<Rightarrow>
                 [Output cb ZF_LOG_FATAL (fst (sink_buf I b s st)) (snd (sink_buf I b s st))])
            @ [Abort])"
proof (cases "ZF_LOG_OUTPUT b st (lvl_of (which s))")
  case True
  then show ?thesis
    by (auto simp add: emitted_writes split: option.splits if_splits)
next
  case False
  then show ?thesis by (simp add: emitted_suppressed)
qed

lemmas run_defs =
  emitted_def exec_log_def ZF_LOGV_def ZF_LOGD_def ZF_LOGI_def ZF_LOGW_def ZF_LOGE_def
  ZF_LOGF_def allow_defs ZF_LOG_ALLOW_def ZF_LOG_OUTPUT_def u_ZF_LOG_IMP_def
  u_ZF_LOG_UNUSED_def
  u_ZF_LOG_LEVEL_def u_ZF_LOG_TAG_def eval_va_args_def location_def
  u_zf_log_write_def u_zf_log_write_d_def fatal_exit_def dispatch_def line_buf_def
  sink_buf_def line_of_def message_def zf_log_set_tag_prefix_def
  compact_line_def verbose_line_def tag_part_def effective_tag_def EOL_def
  unit_of_def state_of_def lit_def tick_def at_main_def stmt_of_def
  libc_def pid_def started_def level_defs u_ZF_LOG_STRINGIFY.simps

text \<open>
  C7. With a prefix that is set and not empty, the effective tag of a tag \<open>t\<close> is the
  prefix, a dot and \<open>t\<close>; with no prefix (null or empty) it is \<open>t\<close>; with no tag it is the
  prefix alone, or nothing when there is no prefix either. The tag is resolved at every
  call from the prefix of that moment: after a statement logged under a prefix \<open>p1\<close> and a
  change of the prefix to \<open>p2\<close>, the next statement's line carries the tag made from \<open>p2\<close>.
\<close>

theorem C7_effective_tag:
  "(p \<noteq> [] \<longrightarrow> effective_tag (Some p) (Some t) = Some (p @ ''.'' @ t))
   \<and> effective_tag None (Some t) = Some t
   \<and> effective_tag (Some []) (Some t) = Some t
   \<and> (p \<noteq> [] \<longrightarrow> effective_tag (Some p) None = Some p)
   \<and> effective_tag None None = None
   \<and> effective_tag (Some []) None = None
   \<and> (ZF_LOG_OUTPUT b st (lvl_of (which s2)) \<and> g_output_cb (lib st) = Some cb \<longrightarrow>
        (let st1 = exec_log (zf_log_c I) b s1 (zf_log_set_tag_prefix p1 st);
             st2 = zf_log_set_tag_prefix p2 st1;
             ln = line_buf (line_cap I)
                    (line_of I b s2 (effective_tag p2 (u_ZF_LOG_TAG b)) (mem st1))
         in emitted I b s2 st2 =
              Output cb (lvl_of (which s2)) (fst ln) (snd ln)
                # (if fatal_aborts I \<and> which s2 = LOGF then [Abort] else [])))"
  using effective_tag_cases [of p t] emitted_after_prefix_change [of b st s2 cb I s1 p1 p2]
  by blast

theorem C7_effective_tag_witness:
  "''APP'' \<noteq> []
   \<and> effective_tag (Some ''APP'') (Some ''NET'') = Some ''APP.NET''
   \<and> effective_tag None (Some ''NET'') = Some ''NET''
   \<and> effective_tag (Some ''APP'') None = Some ''APP''
   \<and> ZF_LOG_OUTPUT (unit_of (Some ZF_LOG_INFO) None True (Some ''NET''))
        (state_of 0 None (Some 1)) (lvl_of (which (started LOGW)))
   \<and> g_output_cb (lib (state_of 0 None (Some 1))) = Some 1
   \<and> emitted (libc 256 True) (unit_of (Some ZF_LOG_INFO) None True (Some ''NET''))
        (started LOGW)
        (zf_log_set_tag_prefix (Some ''APP'')
           (exec_log (zf_log_c (libc 256 True))
              (unit_of (Some ZF_LOG_INFO) None True (Some ''NET'')) (started LOGI)
              (zf_log_set_tag_prefix (Some ''OLD'') (state_of 0 None (Some 1)))))
       = [Output 1 4 (''APP.NET started pid=42'' @ [CHR 0x0A, CHR 0x00]) 22]"
proof -
  let ?b = "unit_of (Some ZF_LOG_INFO) None True (Some ''NET'')"
  let ?st = "state_of 0 None (Some 1)"
  let ?I = "libc 256 True"
  have ne: "''APP'' \<noteq> []" by simp
  have h1: "ZF_LOG_OUTPUT ?b ?st (lvl_of (which (started LOGW)))"
    by (simp add: run_defs)
  have h2: "g_output_cb (lib ?st) = Some 1"
    by (simp add: state_of_def)
  note c = C7_effective_tag [of "''APP''" "''NET''" ?b ?st "started LOGW" 1 ?I "started LOGI"
      "Some ''OLD''" "Some ''APP''"]
  from c ne have t1: "effective_tag (Some ''APP'') (Some ''NET'') = Some ''APP.NET''"
    by simp
  from c have t2: "effective_tag None (Some ''NET'') = Some ''NET''"
    by blast
  from c ne have t3: "effective_tag (Some ''APP'') None = Some ''APP''"
    by blast
  have ln: "line_buf (line_cap ?I)
              (line_of ?I ?b (started LOGW) (effective_tag (Some ''APP'') (u_ZF_LOG_TAG ?b))
                 (mem (exec_log (zf_log_c ?I) ?b (started LOGI)
                         (zf_log_set_tag_prefix (Some ''OLD'') ?st))))
            = (''APP.NET started pid=42'' @ [CHR 0x0A, CHR 0x00], 22)"
    by (simp add: run_defs)
  from c h1 h2 have
    "(let st1 = exec_log (zf_log_c ?I) ?b (started LOGI) (zf_log_set_tag_prefix (Some ''OLD'') ?st);
          st2 = zf_log_set_tag_prefix (Some ''APP'') st1;
          ln = line_buf (line_cap ?I)
                 (line_of ?I ?b (started LOGW) (effective_tag (Some ''APP'') (u_ZF_LOG_TAG ?b))
                    (mem st1))
      in emitted ?I ?b (started LOGW) st2 =
           Output 1 (lvl_of (which (started LOGW))) (fst ln) (snd ln)
             # (if fatal_aborts ?I \<and> which (started LOGW) = LOGF then [Abort] else []))"
    by blast
  then have e: "emitted ?I ?b (started LOGW)
        (zf_log_set_tag_prefix (Some ''APP'')
           (exec_log (zf_log_c ?I) ?b (started LOGI)
              (zf_log_set_tag_prefix (Some ''OLD'') ?st)))
       = [Output 1 4 (''APP.NET started pid=42'' @ [CHR 0x0A, CHR 0x00]) 22]"
    unfolding Let_def ln by (simp add: started_def level_defs)
  from ne t1 t2 t3 h1 h2 e show ?thesis by blast
qed

text \<open>
  C9. What a statement adds to the trace holds a call of \<^verbatim>\<open>abort()\<close> only when the statement
  is \<^verbatim>\<open>ZF_LOGF\<close>, the library is one that aborts on fatal messages and the statement
  passed both filters; the call is then the last event, after the callback (when one is
  registered) has received the message. A statement of any of the five macros below FATAL
  never adds one.
\<close>

theorem C9_only_fatal_aborts:
  "trace (lib (exec_log (zf_log_c I) b s st)) = trace (lib st) @ emitted I b s st
   \<and> (which s \<noteq> LOGF \<longrightarrow> Abort \<notin> set (emitted I b s st))
   \<and> (lvl_of (which s) < ZF_LOG_FATAL \<longrightarrow> Abort \<notin> set (emitted I b s st))
   \<and> (Abort \<in> set (emitted I b s st) \<longrightarrow>
        which s = LOGF \<and> fatal_aborts I \<and> ZF_LOG_OUTPUT b st ZF_LOG_FATAL
        \<and> emitted I b s st =
            (case g_output_cb (lib st) of
               None \<Rightarrow> []
             | Some cb \<Rightarrow>
                 [Output cb ZF_LOG_FATAL (fst (sink_buf I b s st)) (snd (sink_buf I b s st))])
            @ [Abort])"
proof -
  have f: "lvl_of (which s) < ZF_LOG_FATAL \<Longrightarrow> which s \<noteq> LOGF"
    by (cases "which s") (simp_all add: level_defs)
  from f trace_exec_log [of I b s st] abort_only_fatal [of s I b st] show ?thesis
    by blast
qed

theorem C9_only_fatal_aborts_witness:
  "which (started LOGE) \<noteq> LOGF
   \<and> Abort \<notin> set (emitted (libc 256 True) (unit_of None None False None) (started LOGE)
                    (state_of 0 None (Some 1)))
   \<and> Abort \<in> set (emitted (libc 256 True) (unit_of None None False None) (started LOGF)
                    (state_of 0 None (Some 1)))
   \<and> emitted (libc 256 True) (unit_of None None False None) (started LOGF)
        (state_of 0 None (Some 1))
       = [Output 1 6 (''main@a.c:42 started pid=42'' @ [CHR 0x0A, CHR 0x00]) 26, Abort]"
proof -
  let ?b = "unit_of None None False None"
  let ?st = "state_of 0 None (Some 1)"
  let ?I = "libc 256 True"
  have h1: "which (started LOGE) \<noteq> LOGF" by (simp add: started_def)
  have h2: "Abort \<in> set (emitted ?I ?b (started LOGF) ?st)"
    by (simp add: run_defs)
  have cb: "g_output_cb (lib ?st) = Some 1" by (simp add: state_of_def)
  have buf: "sink_buf ?I ?b (started LOGF) ?st
               = (''main@a.c:42 started pid=42'' @ [CHR 0x0A, CHR 0x00], 26)"
    by (simp add: run_defs)
  from h1 C9_only_fatal_aborts [of ?I ?b "started LOGE" ?st]
  have a: "Abort \<notin> set (emitted ?I ?b (started LOGE) ?st)"
    by blast
  from h2 C9_only_fatal_aborts [of ?I ?b "started LOGF" ?st]
  have "emitted ?I ?b (started LOGF) ?st =
            (case g_output_cb (lib ?st) of
               None \<Rightarrow> []
             | Some cb \<Rightarrow>
                 [Output cb ZF_LOG_FATAL (fst (sink_buf ?I ?b (started LOGF) ?st))
                    (snd (sink_buf ?I ?b (started LOGF) ?st))])
            @ [Abort]"
    by blast
  then have e: "emitted ?I ?b (started LOGF) ?st
       = [Output 1 6 (''main@a.c:42 started pid=42'' @ [CHR 0x0A, CHR 0x00]) 26, Abort]"
    unfolding buf cb by (simp add: level_defs)
  from h1 a h2 e show ?thesis by blast
qed

end
